theory Spec2Isabelle
  imports Main "HOL-Library.AList" "HOL-Library.Multiset"
begin

unbundle bit_operations_syntax

section \<open>The jmp directory-bookmark utility (jmp.py)\<close>

subsection \<open>Exceptions\<close>

text \<open>
  The exceptions that the modelled code can raise: \<open>KeyError\<close> from a dictionary
  lookup, \<open>JmpException\<close> raised by \<open>expand\<close>, \<open>RecursionError\<close> from a call
  beyond the recursion limit of the interpreter, \<open>EOFError\<close> from \<open>pickle.load\<close>
  and from \<open>input\<close>, and \<open>UnpicklingError\<close> from \<open>pickle.load\<close>. A function that
  can raise returns \<open>error + 'a\<close>, with \<open>Inl\<close> for the exception.
\<close>

datatype error = KeyError | JmpException | RecursionError | EOFError | UnpicklingError

subsection \<open>JmpStore and the jump table\<close>

definition CURRENT_VERSION :: int where
  "CURRENT_VERSION = 5"

record JmpStore =
  version :: int
  flags :: int
  target :: string
  used :: int

text \<open>\<open>JmpStore.__init__(flags, target)\<close>\<close>

definition JmpStore_init :: "int \<Rightarrow> string \<Rightarrow> JmpStore" where
  "JmpStore_init flgs targ =
     \<lparr>version = CURRENT_VERSION, flags = flgs, target = targ, used = 0\<rparr>"

text \<open>
  \<open>jmp_table\<close> is a Python dict from tag to \<open>JmpStore\<close>. A dict keeps its keys in
  insertion order, and \<open>print_list\<close> depends on that order, so the table is an
  association list: \<open>map_of\<close> is the lookup, \<open>AList.update\<close> is
  \<open>jmp_table[tag] = v\<close> (in place for an existing key, appended for a new one),
  \<open>AList.delete\<close> is \<open>pop\<close>.
\<close>

type_synonym jmp_table = "(string \<times> JmpStore) list"

definition has_key :: "jmp_table \<Rightarrow> string \<Rightarrow> bool" where
  "has_key tbl k = (map_of tbl k \<noteq> None)"

subsection \<open>Flags\<close>

text \<open>\<open>USER_FLAG = 1 << 0\<close>, \<open>TAG_FLAG = 1 << 1\<close>, \<open>ENV_FLAG = 1 << 2\<close>\<close>

definition USER_FLAG :: int where
  "USER_FLAG = push_bit 0 1"

definition TAG_FLAG :: int where
  "TAG_FLAG = push_bit 1 1"

definition ENV_FLAG :: int where
  "ENV_FLAG = push_bit 2 1"

subsection \<open>Strings and paths\<close>

text \<open>\<open>s.split("/")\<close>: never the empty list; \<open>"".split("/")\<close> is \<open>[""]\<close>.\<close>

fun split_sep :: "string \<Rightarrow> string list" where
  "split_sep [] = [[]]"
| "split_sep (c # cs) =
     (if c = CHR ''/'' then [] # split_sep cs
      else (case split_sep cs of
              [] \<Rightarrow> [[c]]
            | w # ws \<Rightarrow> (c # w) # ws))"

text \<open>\<open>"/".join(xs)\<close>\<close>

fun join_sep :: "string list \<Rightarrow> string" where
  "join_sep [] = []"
| "join_sep [x] = x"
| "join_sep (x # y # ys) = x @ ''/'' @ join_sep (y # ys)"

text \<open>\<open>s.startswith(p)\<close>\<close>

definition startswith :: "string \<Rightarrow> string \<Rightarrow> bool" where
  "startswith s p = (take (length p) s = p)"

text \<open>\<open>s.lower()\<close> on ASCII letters.\<close>

definition lower_char :: "char \<Rightarrow> char" where
  "lower_char c =
     (let n = (of_char c :: nat)
      in if 65 \<le> n \<and> n \<le> 90 then char_of (n + 32) else c)"

definition lower :: "string \<Rightarrow> string" where
  "lower s = map lower_char s"

text \<open>\<open>"{}".format(n)\<close> for an integer.\<close>

fun str_nat :: "nat \<Rightarrow> string" where
  "str_nat n =
     (if n < 10 then [char_of (48 + n)]
      else str_nat (n div 10) @ [char_of (48 + n mod 10)])"

definition str_int :: "int \<Rightarrow> string" where
  "str_int i = (if i < 0 then CHR ''-'' # str_nat (nat (- i)) else str_nat (nat i))"

subsection \<open>The operating system\<close>

text \<open>
  What the program reads from its environment through \<open>os.path\<close>: the home
  directories (\<open>expanduser\<close>), the environment variables (\<open>expandvars\<close>), the
  directories that exist (\<open>isdir\<close>) and the working directory (\<open>abspath\<close>). They
  are parameters of the model. So is the recursion limit of the interpreter:
  \<open>frames\<close> is the number of calls of \<open>expand\<close> from within \<open>expand\<close> that can
  still be nested when an operation calls \<open>expand\<close> (the limit of
  \<open>sys.getrecursionlimit\<close> less the frames in use). The program never sets the
  limit; a call beyond it raises \<open>RecursionError\<close>.
\<close>

record os =
  expanduser :: "string \<Rightarrow> string"
  expandvars :: "string \<Rightarrow> string"
  isdir :: "string \<Rightarrow> bool"
  abspath :: "string \<Rightarrow> string"
  frames :: nat

subsection \<open>Output\<close>

datatype fd = Stdout | Stderr

type_synonym printed = "(fd \<times> string) list"

text \<open>The class attributes \<open>LOG_DEBUG = False\<close> and \<open>SUPPRESS = False\<close>.\<close>

definition LOG_DEBUG :: bool where
  "LOG_DEBUG = False"

definition SUPPRESS :: bool where
  "SUPPRESS = False"

text \<open>\<open>JmpBackend.log(msg, debug, fd)\<close>: the lines printed, with their stream.\<close>

definition log :: "string \<Rightarrow> bool \<Rightarrow> fd \<Rightarrow> printed" where
  "log msg dbg f =
     (if SUPPRESS then []
      else if \<not> dbg \<or> LOG_DEBUG then [(f, msg)] else [])"

text \<open>\<open>JmpBackend.debug(msg)\<close>\<close>

definition debug :: "string \<Rightarrow> printed" where
  "debug msg = log msg True Stderr"

subsection \<open>The resolution engine\<close>

text \<open>
  \<open>JmpBackend.expand\<close>. The \<open>while flags\<close> loop is \<open>expand_loop\<close>: one call is
  one test of the loop condition followed by one iteration. The loop calls
  \<open>self.expand\<close> on the stored entry of the leading tag. The program does not bound
  that recursion; the interpreter does: the nested call raises \<open>RecursionError\<close>
  when no frame is left, and runs with one frame less otherwise. No termination
  argument is part of the definition: \<open>None\<close> is a call that does not return,
  \<open>Some (Inl e)\<close> is a raised exception and \<open>Some (Inr p)\<close> the returned path.
  The recursive \<open>self.expand(store.flags, store.target)\<close> is written with the
  initial \<open>if not flags: return target\<close> of \<open>expand\<close> in front of the loop.
\<close>

partial_function (option) expand_loop ::
  "os \<Rightarrow> jmp_table \<Rightarrow> int \<Rightarrow> string \<Rightarrow> (error + string) option" where
  "expand_loop os tbl flgs targ =
     (if flgs = 0 then Some (Inr targ)
      else if flgs AND USER_FLAG \<noteq> 0 then
        expand_loop os tbl (flgs XOR USER_FLAG) (expanduser os targ)
      else if flgs AND TAG_FLAG \<noteq> 0 then
        (let splitpath = split_sep targ in
         case map_of tbl (splitpath ! 0) of
           None \<Rightarrow> Some (Inl KeyError)
         | Some store \<Rightarrow>
             Option.bind
               (if frames os = 0 then Some (Inl RecursionError)
                else if flags store = 0 then Some (Inr (target store))
                else expand_loop (os\<lparr>frames := frames os - 1\<rparr>) tbl
                       (flags store) (target store))
               (\<lambda>r. case r of
                  Inl e \<Rightarrow> Some (Inl e)
                | Inr root \<Rightarrow>
                    expand_loop os tbl (flgs XOR TAG_FLAG)
                      (join_sep (splitpath[0 := root]))))
      else if flgs AND ENV_FLAG \<noteq> 0 then
        expand_loop os tbl (flgs XOR ENV_FLAG) (expandvars os targ)
      else Some (Inl JmpException))"

declare expand_loop.simps [code]

definition expand :: "os \<Rightarrow> jmp_table \<Rightarrow> int \<Rightarrow> string \<Rightarrow> (error + string) option" where
  "expand os tbl flgs targ =
     (if flgs = 0 then Some (Inr targ) else expand_loop os tbl flgs targ)"

text \<open>
  \<open>self.expand\<close> called from within \<open>expand\<close>, as the loop does for the entry of the
  leading tag: \<open>RecursionError\<close> when no frame is left, \<open>expand\<close> with one frame
  less otherwise.
\<close>

definition expand_nested :: "os \<Rightarrow> jmp_table \<Rightarrow> int \<Rightarrow> string \<Rightarrow> (error + string) option" where
  "expand_nested os tbl flgs targ =
     (if frames os = 0 then Some (Inl RecursionError)
      else expand (os\<lparr>frames := frames os - 1\<rparr>) tbl flgs targ)"

text \<open>\<open>JmpBackend.get_flags\<close>\<close>

definition get_flags :: "os \<Rightarrow> jmp_table \<Rightarrow> string \<Rightarrow> int \<times> string" where
  "get_flags os tbl targ =
     (let flgs = 0;
          flgs = (if has_key tbl (split_sep targ ! 0) then flgs OR TAG_FLAG
                  else if startswith targ ''~'' then flgs OR USER_FLAG
                  else flgs);
          flgs = (if targ \<noteq> expandvars os targ then flgs OR ENV_FLAG else flgs)
      in (flgs, targ))"

subsection \<open>The operations on the jump table\<close>

text \<open>
  An operation takes the jump table and returns what it returns or raises, the jump
  table after it, and what it printed. \<open>None\<close> is an operation that does not
  return, which it could only do when its \<open>expand\<close> does not.
\<close>

type_synonym 'a outcome = "(error + 'a) \<times> jmp_table \<times> printed"

text \<open>\<open>JmpBackend.store_jmp\<close>\<close>

definition store_jmp ::
  "os \<Rightarrow> jmp_table \<Rightarrow> string \<Rightarrow> string \<Rightarrow> bool \<Rightarrow> bool outcome option" where
  "store_jmp os tbl tag targ absolute =
     (let (flgs, targ) = get_flags os tbl targ;
          targ = (if flgs = 0 \<and> absolute then abspath os targ else targ)
      in case expand os tbl flgs targ of
           None \<Rightarrow> None
         | Some (Inl e) \<Rightarrow> Some (Inl e, tbl, [])
         | Some (Inr path) \<Rightarrow>
             if \<not> isdir os path then
               Some (Inr False, tbl,
                     log (targ @ '' is not a jumpable directory.'') False Stdout)
             else
               Some (Inr True, AList.update tag (JmpStore_init flgs targ) tbl,
                     log (''Added jmp '' @ tag @ '' -> '' @ targ) False Stdout))"

text \<open>\<open>JmpBackend.delete_jmp\<close>: \<open>pop\<close> raises \<open>KeyError\<close> on a missing tag, caught here.\<close>

definition delete_jmp :: "jmp_table \<Rightarrow> string \<Rightarrow> bool \<times> jmp_table \<times> printed" where
  "delete_jmp tbl tag =
     (if has_key tbl tag then
        (True, AList.delete tag tbl, log (''Deleted tag '' @ tag @ ''.'') False Stdout)
      else
        (False, tbl, log (''Tag '' @ tag @ '' is not registered.'') False Stdout))"

text \<open>
  \<open>JmpBackend.jmp_to\<close>. \<open>reply\<close> is the line that \<open>input\<close> reads, \<open>None\<close> when
  the input stream is at its end (\<open>input\<close> raises \<open>EOFError\<close>). The prompt of
  \<open>input\<close> goes to the redirected standard output, the standard error; the default
  \<open>fd\<close> of \<open>log\<close> was bound when the class was defined and is not redirected.
\<close>

definition special :: "string list" where
  "special = [''-'']"

definition jmp_to ::
  "os \<Rightarrow> jmp_table \<Rightarrow> string option \<Rightarrow> string \<Rightarrow> bool outcome option" where
  "jmp_to os tbl reply tag =
     (let (flgs, targ) = get_flags os tbl tag
      in case expand os tbl flgs targ of
           None \<Rightarrow> None
         | Some (Inl e) \<Rightarrow> Some (Inl e, tbl, [])
         | Some (Inr path) \<Rightarrow>
             if \<not> isdir os path \<and> targ \<notin> set special then
               (let out = log (''Tag '' @ tag @ '' points to an invalid path.'') False Stderr
                in if flgs AND TAG_FLAG \<noteq> 0 \<and> has_key tbl tag then
                     (let out = out @ [(Stderr, ''delete tag? (y/n): '')]
                      in case reply of
                           None \<Rightarrow> Some (Inl EOFError, tbl, out)
                         | Some line \<Rightarrow>
                             if lower line = ''y'' then
                               (let (_, tbl', out') = delete_jmp tbl tag
                                in Some (Inr False, tbl', out @ out'))
                             else Some (Inr False, tbl, out))
                   else Some (Inr False, tbl, out))
             else
               (let tbl' = (if flgs AND TAG_FLAG \<noteq> 0 \<and> has_key tbl tag
                            then AList.map_entry tag (\<lambda>s. s\<lparr>used := used s + 1\<rparr>) tbl
                            else tbl)
                in Some (Inr True, tbl', log (''bash: '' @ path) False Stdout)))"

text \<open>
  \<open>JmpBackend.print_list\<close>. \<open>sorted\<close> is stable, as \<open>sort_key\<close> is; \<open>listing\<close>
  is the sequence that the \<open>for\<close> loop runs through.
\<close>

definition listing :: "jmp_table \<Rightarrow> (string \<times> JmpStore) list" where
  "listing tbl = sort_key (\<lambda>j. - used (snd j)) tbl"

definition print_list :: "jmp_table \<Rightarrow> printed" where
  "print_list tbl =
     log ''jmp_table:'' False Stdout
     @ (if tbl = [] then log ''  empty'' False Stdout else [])
     @ concat (map (\<lambda>(jmp, store).
                  log (''  '' @ jmp @ '' ('' @ str_int (used store) @ '') -> '' @ target store)
                      False Stdout)
               (listing tbl))"

subsection \<open>Persistence\<close>

text \<open>
  The files of the storage directory are a map from path to content. \<open>pickle\<close> is
  the serialisation library, a parameter of the model: \<open>dump\<close> is the content that
  \<open>pickle.dump\<close> writes for a jump table, \<open>load\<close> is what \<open>pickle.load\<close> does on
  a content, which is to return a table or to raise.
\<close>

datatype unpickled = Loaded jmp_table | Raises error

record 'b pickle =
  dump :: "jmp_table \<Rightarrow> 'b"
  load :: "'b \<Rightarrow> unpickled"

type_synonym 'b files = "string \<rightharpoonup> 'b"

text \<open>\<open>os.path.join(path, store)\<close> for the two components of the store file.\<close>

definition path_join :: "string \<Rightarrow> string \<Rightarrow> string" where
  "path_join p q =
     (if startswith q ''/'' then q
      else if p = [] \<or> last p = CHR ''/'' then p @ q
      else p @ ''/'' @ q)"

text \<open>
  \<open>JmpBackend.load_table\<close>: \<open>self.jmp_table\<close> is assigned when the file exists
  and unpickles, or when unpickling raises \<open>EOFError\<close>; another exception
  leaves the \<open>try\<close> statement.
\<close>

definition load_table ::
  "'b pickle \<Rightarrow> 'b files \<Rightarrow> string \<Rightarrow> string \<Rightarrow> jmp_table \<Rightarrow> unit outcome" where
  "load_table pk files path store tbl =
     (let store_file = path_join path store
      in case files store_file of
           None \<Rightarrow> (Inr (), tbl, debug ''Successfully loaded jmp table.'')
         | Some data \<Rightarrow>
             (case load pk data of
                Loaded t \<Rightarrow> (Inr (), t, debug ''Successfully loaded jmp table.'')
              | Raises e \<Rightarrow>
                  if e = EOFError
                  then (Inr (), [], debug ''Successfully loaded jmp table.'')
                  else (Inl e, tbl, [])))"

text \<open>\<open>JmpBackend.save_table\<close>\<close>

definition save_table ::
  "'b pickle \<Rightarrow> 'b files \<Rightarrow> string \<Rightarrow> string \<Rightarrow> jmp_table \<Rightarrow> 'b files \<times> printed" where
  "save_table pk files path store tbl =
     (let store_file = path_join path store
      in (files(store_file \<mapsto> dump pk tbl), debug ''Successfully saved jmp table.''))"

subsection \<open>A session\<close>

text \<open>
  The branch of \<open>main\<close> for \<open>jmp tag\<close>: \<open>with jmpback: jmpback.jmp_to(args.tag)\<close>
  on a new \<open>JmpBackend\<close>, whose jump table is empty. \<open>__enter__\<close> loads the table;
  \<open>__exit__\<close> saves it, also when \<open>jmp_to\<close> raised, and does not suppress the
  exception. What \<open>main_jmp_to\<close> raises leaves the process.
\<close>

definition main_jmp_to ::
  "'b pickle \<Rightarrow> 'b files \<Rightarrow> string \<Rightarrow> string \<Rightarrow> os \<Rightarrow> string option \<Rightarrow> string
     \<Rightarrow> ((error + unit) \<times> 'b files \<times> printed) option" where
  "main_jmp_to pk files path store os reply tag =
     (case load_table pk files path store [] of
        (Inl e, _, out) \<Rightarrow> Some (Inl e, files, out)
      | (Inr _, tbl, out) \<Rightarrow>
          (case jmp_to os tbl reply tag of
             None \<Rightarrow> None
           | Some (r, tbl', out') \<Rightarrow>
               (let (files', out'') = save_table pk files path store tbl'
                in Some (case r of Inl e \<Rightarrow> Inl e | Inr _ \<Rightarrow> Inr (),
                         files', out @ out' @ out''))))"

section \<open>Notions used to state the properties\<close>

subsection \<open>The order of the indirections\<close>

text \<open>
  A flag set as three independent booleans, and the bitmask that stands for it.
\<close>

record flagset =
  has_user :: bool
  has_tag :: bool
  has_env :: bool

definition mask :: "flagset \<Rightarrow> int" where
  "mask S =
     (if has_user S then USER_FLAG else 0)
     OR (if has_tag S then TAG_FLAG else 0)
     OR (if has_env S then ENV_FLAG else 0)"

text \<open>
  Tag-relative expansion in the words of the specification: split the target into its
  first component and the remainder, look up the entry of the first component, expand
  that entry's own target with its own flags by a recursive call, and join the
  expanded root with the remainder.
\<close>

definition tag_relative :: "os \<Rightarrow> jmp_table \<Rightarrow> string \<Rightarrow> (error + string) option" where
  "tag_relative os tbl targ =
     (case split_sep targ of
        [] \<Rightarrow> Some (Inr targ)
      | first # remainder \<Rightarrow>
          (case map_of tbl first of
             None \<Rightarrow> Some (Inl KeyError)
           | Some store \<Rightarrow>
               (case expand_nested os tbl (flags store) (target store) of
                  None \<Rightarrow> None
                | Some (Inl e) \<Rightarrow> Some (Inl e)
                | Some (Inr root) \<Rightarrow> Some (Inr (join_sep (root # remainder))))))"

text \<open>
  Expansion in the words of the specification: the empty flag set returns the target
  unchanged; otherwise home-directory expansion, then tag-relative expansion, then
  environment-variable expansion, each one applied when its flag is in the set.
\<close>

definition expand_spec :: "os \<Rightarrow> jmp_table \<Rightarrow> flagset \<Rightarrow> string \<Rightarrow> (error + string) option" where
  "expand_spec os tbl S targ =
     (if \<not> has_user S \<and> \<not> has_tag S \<and> \<not> has_env S then Some (Inr targ)
      else
        (let t1 = (if has_user S then expanduser os targ else targ)
         in case (if has_tag S then tag_relative os tbl t1 else Some (Inr t1)) of
              None \<Rightarrow> None
            | Some (Inl e) \<Rightarrow> Some (Inl e)
            | Some (Inr t2) \<Rightarrow>
                Some (Inr (if has_env S then expandvars os t2 else t2))))"

subsection \<open>Finite chains of tag references\<close>

text \<open>
  The tag that \<open>expand\<close> looks up when the tag flag is set: the first component of
  the target, after home-directory expansion \<open>home\<close> when that flag is set too.
\<close>

definition leading :: "(string \<Rightarrow> string) \<Rightarrow> int \<Rightarrow> string \<Rightarrow> string" where
  "leading home flgs targ =
     split_sep (if flgs AND USER_FLAG \<noteq> 0 then home targ else targ) ! 0"

text \<open>
  \<open>chain_ok home tbl flgs targ\<close>, where \<open>home\<close> is the home-directory expansion of
  the system: the chain of tag references that starts at the target is finite. It ends
  at a target that is not tag-relative, or at a tag that is not in the table. A tag
  that resolves to itself, directly or through other tags, has a chain that is not
  finite.
\<close>

inductive chain_ok :: "(string \<Rightarrow> string) \<Rightarrow> jmp_table \<Rightarrow> int \<Rightarrow> string \<Rightarrow> bool"
  for home :: "string \<Rightarrow> string" and tbl :: jmp_table where
  no_tag: "flgs AND TAG_FLAG = 0 \<Longrightarrow> chain_ok home tbl flgs targ"
| dangling: "flgs AND TAG_FLAG \<noteq> 0 \<Longrightarrow> map_of tbl (leading home flgs targ) = None
     \<Longrightarrow> chain_ok home tbl flgs targ"
| follow: "flgs AND TAG_FLAG \<noteq> 0 \<Longrightarrow> map_of tbl (leading home flgs targ) = Some store
     \<Longrightarrow> chain_ok home tbl (flags store) (target store)
     \<Longrightarrow> chain_ok home tbl flgs targ"

subsection \<open>A concrete system and concrete jump tables\<close>

text \<open>
  A system with the home directory \<open>/home/u\<close>, the variable \<open>$HOME\<close>, the
  directories \<open>/tmp\<close>, \<open>/tmp/sub\<close> and \<open>/home/u\<close>, and 990 frames left of the
  interpreter's default limit of 1000.
\<close>

definition os0 :: os where
  "os0 =
     \<lparr>expanduser = (\<lambda>t. if startswith t ''~'' then ''/home/u'' @ drop 1 t else t),
      expandvars = (\<lambda>t. if startswith t ''$HOME'' then ''/home/u'' @ drop 5 t else t),
      isdir = (\<lambda>p. p \<in> set [''/tmp'', ''/tmp/sub'', ''/home/u'']),
      abspath = (\<lambda>t. if startswith t ''/'' then t else ''/home/u/'' @ t),
      frames = 990\<rparr>"

text \<open>The table after \<open>jmp a /tmp\<close>.\<close>

definition t_a :: jmp_table where
  "t_a = [(''a'', JmpStore_init 0 ''/tmp'')]"

text \<open>The table after \<open>jmp a /tmp\<close> and \<open>jmp b a/sub\<close>.\<close>

definition t_ab :: jmp_table where
  "t_ab = [(''a'', JmpStore_init 0 ''/tmp''), (''b'', JmpStore_init 2 ''a/sub'')]"

text \<open>The table after \<open>jmp a /tmp\<close>, \<open>jmp b a/sub\<close> and \<open>jmp -d a\<close>.\<close>

definition t_dangling :: jmp_table where
  "t_dangling = [(''b'', JmpStore_init 2 ''a/sub'')]"

text \<open>The table after \<open>jmp a /tmp\<close> and \<open>jmp a a\<close>.\<close>

definition t_self :: jmp_table where
  "t_self = [(''a'', JmpStore_init 2 ''a'')]"

text \<open>A table with a tag that begins with the home-directory marker.\<close>

definition t_tilde :: jmp_table where
  "t_tilde = [(''~'', JmpStore_init 0 ''/tmp'')]"

text \<open>The table after \<open>jmp b /tmp\<close> and \<open>jmp a /tmp\<close>.\<close>

definition t_ba :: jmp_table where
  "t_ba = [(''b'', JmpStore_init 0 ''/tmp''), (''a'', JmpStore_init 0 ''/tmp'')]"

text \<open>
  File contents told apart by what \<open>pickle.load\<close> does on them: the pickle of a
  table, an empty file (\<open>EOFError\<close>), and bytes that are no pickle
  (\<open>UnpicklingError\<close>).
\<close>

datatype content = Pickle jmp_table | Empty | Garbage

definition pickle0 :: "content pickle" where
  "pickle0 =
     \<lparr>dump = Pickle,
      load = (\<lambda>c. case c of
                Pickle t \<Rightarrow> Loaded t
              | Empty \<Rightarrow> Raises EOFError
              | Garbage \<Rightarrow> Raises UnpicklingError)\<rparr>"

section \<open>Properties\<close>

subsection \<open>Flags and strings\<close>

lemma flag_values: "USER_FLAG = 1" "TAG_FLAG = 2" "ENV_FLAG = 4"
  by (simp_all add: USER_FLAG_def TAG_FLAG_def ENV_FLAG_def)

lemma split_sep_nonempty: "split_sep s \<noteq> []"
  by (induction s) (auto split: list.splits)

lemma flag_test:
  "(flgs AND USER_FLAG \<noteq> 0) = bit flgs 0"
  "(flgs AND TAG_FLAG \<noteq> 0) = bit flgs 1"
  "(flgs AND ENV_FLAG \<noteq> 0) = bit flgs 2"
  "(flgs AND USER_FLAG = 0) = (\<not> bit flgs 0)"
  "(flgs AND TAG_FLAG = 0) = (\<not> bit flgs 1)"
  "(flgs AND ENV_FLAG = 0) = (\<not> bit flgs 2)"
  by (simp_all add: USER_FLAG_def TAG_FLAG_def ENV_FLAG_def bit_iff_and_push_bit_not_eq_0)


subsection \<open>The loop of expand\<close>




text \<open>One iteration of the loop when the user flag is set.\<close>

lemma loop_user_step:
  assumes "bit flgs 0"
  shows "expand_loop os tbl flgs targ =
           expand_loop os tbl (flgs XOR USER_FLAG) (expanduser os targ)"
proof -
  have "flgs \<noteq> 0" using assms by auto
  then show ?thesis
    using assms by (subst expand_loop.simps) (simp add: flag_test)
qed

text \<open>One iteration of the loop when the tag flag is set and the user flag is not.\<close>

lemma loop_tag_step:
  assumes "\<not> bit flgs 0" "bit flgs 1"
  shows "expand_loop os tbl flgs targ =
     (case map_of tbl (split_sep targ ! 0) of
        None \<Rightarrow> Some (Inl KeyError)
      | Some store \<Rightarrow>
          (case expand_nested os tbl (flags store) (target store) of
             None \<Rightarrow> None
           | Some (Inl e) \<Rightarrow> Some (Inl e)
           | Some (Inr root) \<Rightarrow>
               expand_loop os tbl (flgs XOR TAG_FLAG)
                 (join_sep ((split_sep targ)[0 := root]))))"
proof -
  have "flgs \<noteq> 0" using assms by auto
  then show ?thesis
    using assms
    by (subst expand_loop.simps)
       (simp add: flag_test expand_def expand_nested_def Let_def
             split: option.splits sum.splits)
qed

text \<open>One iteration of the loop when only the environment flag is left of the three.\<close>

lemma loop_env_step:
  assumes "\<not> bit flgs 0" "\<not> bit flgs 1" "bit flgs 2"
  shows "expand_loop os tbl flgs targ =
           expand_loop os tbl (flgs XOR ENV_FLAG) (expandvars os targ)"
proof -
  have "flgs \<noteq> 0" using assms by auto
  then show ?thesis
    using assms by (subst expand_loop.simps) (simp add: flag_test)
qed

lemma loop_exit: "expand_loop os tbl 0 targ = Some (Inr targ)"
  by (subst expand_loop.simps) simp

subsection \<open>Termination of expand\<close>





subsection \<open>Chains of tag references that are not finite\<close>





text \<open>The self-referential table is one that the program builds.\<close>

lemma self_reference_reachable:
  "store_jmp os0 t_a ''a'' ''a'' True =
     Some (Inr True, t_self, [(Stdout, ''Added jmp a -> a'')])"
  by code_simp





subsection \<open>Values of expand on the flag words without the tag flag\<close>

lemma expand_user: "expand os tbl 1 targ = Some (Inr (expanduser os targ))"
proof -
  have "expand_loop os tbl 1 targ = expand_loop os tbl (1 XOR USER_FLAG) (expanduser os targ)"
    by (rule loop_user_step) simp
  then show ?thesis by (simp add: expand_def flag_values loop_exit)
qed

lemma expand_env: "expand os tbl 4 targ = Some (Inr (expandvars os targ))"
proof -
  have "expand_loop os tbl 4 targ = expand_loop os tbl (4 XOR ENV_FLAG) (expandvars os targ)"
    by (rule loop_env_step) simp_all
  then show ?thesis by (simp add: expand_def flag_values loop_exit)
qed

lemma expand_user_env:
  "expand os tbl 5 targ = Some (Inr (expandvars os (expanduser os targ)))"
proof -
  have "expand_loop os tbl 5 targ = expand_loop os tbl (5 XOR USER_FLAG) (expanduser os targ)"
    by (rule loop_user_step) simp
  moreover have "expand_loop os tbl 4 (expanduser os targ) =
      expand_loop os tbl (4 XOR ENV_FLAG) (expandvars os (expanduser os targ))"
    by (rule loop_env_step) simp_all
  ultimately show ?thesis by (simp add: expand_def flag_values loop_exit)
qed

subsection \<open>Classification\<close>

lemma get_flags_value:
  "get_flags os tbl targ =
     ((if has_key tbl (split_sep targ ! 0) then 2 else if startswith targ ''~'' then 1 else 0)
      + (if targ \<noteq> expandvars os targ then 4 else 0), targ)"
  by (simp add: get_flags_def flag_values Let_def)

text \<open>
  C4, counterexample. On the table \<open>t_tilde\<close>, which has the tag \<open>~\<close>, the target
  \<open>~/x\<close> begins with the home-directory marker and the user flag is not set: the
  classification gives the tag flag alone.
\<close>

theorem get_flags_tilde_tag_no_user_flag:
  "startswith ''~/x'' ''~'' \<and> fst (get_flags os0 t_tilde ''~/x'') AND USER_FLAG = 0"
  by (simp add: get_flags_value startswith_def has_key_def t_tilde_def os0_def flag_values)

text \<open>
  C4, amended. The tag flag is set iff the first component of the target is a key of
  the store; the user flag is set iff the target begins with \<open>~\<close> and the tag flag is
  not set; the environment flag is set iff environment expansion changes the target.
  The tag and user flags are never set together, no other bit is ever set, and the
  target is returned as it was given.
\<close>

theorem get_flags_classification:
  "(fst (get_flags os tbl targ) AND TAG_FLAG \<noteq> 0) = has_key tbl (split_sep targ ! 0)
   \<and> (fst (get_flags os tbl targ) AND USER_FLAG \<noteq> 0) =
       (startswith targ ''~'' \<and> \<not> has_key tbl (split_sep targ ! 0))
   \<and> (fst (get_flags os tbl targ) AND ENV_FLAG \<noteq> 0) = (targ \<noteq> expandvars os targ)
   \<and> fst (get_flags os tbl targ) \<in> {0, 1, 2, 4, 5, 6}
   \<and> snd (get_flags os tbl targ) = targ"
  by (simp add: get_flags_value flag_values)

subsection \<open>Jumping\<close>

lemma expand_without_tag:
  assumes "\<not> has_key tbl (split_sep targ ! 0)"
  shows "\<exists>path. expand os tbl (fst (get_flags os tbl targ)) targ = Some (Inr path)"
  using assms
  by (simp add: get_flags_value expand_user expand_env expand_user_env)
     (simp add: expand_def)

text \<open>
  C10. When the classification of the input does not set the tag flag, \<open>jmp_to\<close>
  returns \<open>True\<close> or \<open>False\<close>, raises nothing, and the jump table after it is the
  jump table before it.
\<close>

theorem jmp_to_without_tag_keeps_table:
  assumes "fst (get_flags os tbl tag) AND TAG_FLAG = 0"
  shows "\<exists>ok out. jmp_to os tbl reply tag = Some (Inr ok, tbl, out)"
proof -
  from assms have nk: "\<not> has_key tbl (split_sep tag ! 0)"
    by (simp add: get_flags_value flag_values split: if_splits)
  from expand_without_tag [OF nk] obtain path
    where p: "expand os tbl (fst (get_flags os tbl tag)) tag = Some (Inr path)"
    by blast
  have g: "get_flags os tbl tag = (fst (get_flags os tbl tag), tag)"
    by (simp add: get_flags_value)
  show ?thesis
    using assms p
    by (subst jmp_to_def, subst g) (auto simp add: Let_def)
qed

theorem jmp_to_without_tag_keeps_table_witness:
  "fst (get_flags os0 t_a ''/tmp'') AND TAG_FLAG = 0
   \<and> (\<exists>ok out. jmp_to os0 t_a None ''/tmp'' = Some (Inr ok, t_a, out))
   \<and> fst (get_flags os0 t_a ''/nowhere'') AND TAG_FLAG = 0
   \<and> (\<exists>ok out. jmp_to os0 t_a None ''/nowhere'' = Some (Inr ok, t_a, out))"
proof -
  have h1: "fst (get_flags os0 t_a ''/tmp'') AND TAG_FLAG = 0"
    by code_simp
  have h2: "fst (get_flags os0 t_a ''/nowhere'') AND TAG_FLAG = 0"
    by code_simp
  from h1 h2 jmp_to_without_tag_keeps_table [OF h1, of None]
    jmp_to_without_tag_keeps_table [OF h2, of None]
  show ?thesis by simp
qed

text \<open>The table with a reference to a deleted tag is one that the program builds.\<close>

lemma dangling_reference_reachable:
  "store_jmp os0 t_a ''b'' ''a/sub'' True =
     Some (Inr True, t_ab, [(Stdout, ''Added jmp b -> a/sub'')])"
  "delete_jmp t_ab ''a'' = (True, t_dangling, [(Stdout, ''Deleted tag a.'')])"
  by code_simp+

text \<open>
  C1, the failing input. On the table \<open>t_dangling\<close>, where tag \<open>b\<close> is stored with
  the target \<open>a/sub\<close> and tag \<open>a\<close> has been deleted, \<open>jmp_to\<close> on \<open>b\<close> raises
  \<open>KeyError\<close>: it prints nothing and returns no failure result. A session that
  loads this table and jumps to \<open>b\<close> ends with that exception.
\<close>

theorem jmp_to_deleted_reference_raises:
  "jmp_to os0 t_dangling None ''b'' = Some (Inl KeyError, t_dangling, [])
   \<and> main_jmp_to pickle0 [''/home/u/.jmp_pad/jmp_table.pkl'' \<mapsto> Pickle t_dangling]
        ''/home/u/.jmp_pad'' ''jmp_table.pkl'' os0 None ''b''
      = Some (Inl KeyError, [''/home/u/.jmp_pad/jmp_table.pkl'' \<mapsto> Pickle t_dangling], [])"
proof -
  have j: "jmp_to os0 t_dangling None ''b'' = Some (Inl KeyError, t_dangling, [])"
    by code_simp
  have l: "load_table pickle0 [''/home/u/.jmp_pad/jmp_table.pkl'' \<mapsto> Pickle t_dangling]
        ''/home/u/.jmp_pad'' ''jmp_table.pkl'' [] = (Inr (), t_dangling, [])"
    by (simp add: load_table_def path_join_def startswith_def pickle0_def debug_def log_def
          SUPPRESS_def LOG_DEBUG_def)
  have s: "save_table pickle0 [''/home/u/.jmp_pad/jmp_table.pkl'' \<mapsto> Pickle t_dangling]
        ''/home/u/.jmp_pad'' ''jmp_table.pkl'' t_dangling
      = ([''/home/u/.jmp_pad/jmp_table.pkl'' \<mapsto> Pickle t_dangling], [])"
    by (simp add: save_table_def path_join_def startswith_def pickle0_def debug_def log_def
          SUPPRESS_def LOG_DEBUG_def)
  show ?thesis
    by (simp add: main_jmp_to_def j l s)
qed

subsection \<open>The order of the indirections\<close>

lemma tag_relative_index:
  "tag_relative os tbl targ =
     (case map_of tbl (split_sep targ ! 0) of
        None \<Rightarrow> Some (Inl KeyError)
      | Some store \<Rightarrow>
          (case expand_nested os tbl (flags store) (target store) of
             None \<Rightarrow> None
           | Some (Inl e) \<Rightarrow> Some (Inl e)
           | Some (Inr root) \<Rightarrow> Some (Inr (join_sep ((split_sep targ)[0 := root])))))"
proof (cases "split_sep targ")
  case Nil
  then show ?thesis by (simp add: split_sep_nonempty)
next
  case (Cons first remainder)
  then show ?thesis
    by (simp add: tag_relative_def split: option.splits sum.splits)
qed

lemma loop_tag_value:
  assumes "\<not> bit flgs 0" "bit flgs 1"
  shows "expand_loop os tbl flgs targ =
     (case tag_relative os tbl targ of
        None \<Rightarrow> None
      | Some (Inl e) \<Rightarrow> Some (Inl e)
      | Some (Inr t2) \<Rightarrow> expand_loop os tbl (flgs XOR TAG_FLAG) t2)"
  by (simp add: loop_tag_step [OF assms] tag_relative_index
           split: option.splits sum.splits)

lemma loop_env_value: "expand_loop os tbl 4 targ = Some (Inr (expandvars os targ))"
  using expand_env [of os tbl targ] by (simp add: expand_def)

lemma expand_tag:
  "expand os tbl 2 targ =
     (case tag_relative os tbl targ of
        None \<Rightarrow> None
      | Some (Inl e) \<Rightarrow> Some (Inl e)
      | Some (Inr t2) \<Rightarrow> Some (Inr t2))"
proof -
  have "expand_loop os tbl 2 targ =
     (case tag_relative os tbl targ of
        None \<Rightarrow> None
      | Some (Inl e) \<Rightarrow> Some (Inl e)
      | Some (Inr t2) \<Rightarrow> expand_loop os tbl (2 XOR TAG_FLAG) t2)"
    by (rule loop_tag_value) simp_all
  then show ?thesis
    by (simp add: expand_def flag_values loop_exit split: option.splits sum.splits)
qed

lemma expand_tag_env:
  "expand os tbl 6 targ =
     (case tag_relative os tbl targ of
        None \<Rightarrow> None
      | Some (Inl e) \<Rightarrow> Some (Inl e)
      | Some (Inr t2) \<Rightarrow> Some (Inr (expandvars os t2)))"
proof -
  have "expand_loop os tbl 6 targ =
     (case tag_relative os tbl targ of
        None \<Rightarrow> None
      | Some (Inl e) \<Rightarrow> Some (Inl e)
      | Some (Inr t2) \<Rightarrow> expand_loop os tbl (6 XOR TAG_FLAG) t2)"
    by (rule loop_tag_value) simp_all
  then show ?thesis
    by (simp add: expand_def flag_values loop_env_value split: option.splits sum.splits)
qed

lemma expand_user_tag:
  "expand os tbl 3 targ = expand os tbl 2 (expanduser os targ)"
proof -
  have "expand_loop os tbl 3 targ = expand_loop os tbl (3 XOR USER_FLAG) (expanduser os targ)"
    by (rule loop_user_step) simp
  then show ?thesis by (simp add: expand_def flag_values)
qed

lemma expand_user_tag_env:
  "expand os tbl 7 targ = expand os tbl 6 (expanduser os targ)"
proof -
  have "expand_loop os tbl 7 targ = expand_loop os tbl (7 XOR USER_FLAG) (expanduser os targ)"
    by (rule loop_user_step) simp
  then show ?thesis by (simp add: expand_def flag_values)
qed

text \<open>
  C3. For every flag set, \<open>expand\<close> on its bitmask is \<open>expand_spec\<close>: the target
  unchanged for the empty set, and otherwise home-directory expansion, then
  tag-relative expansion, then environment-variable expansion, each applied once when
  its flag is in the set.
\<close>

theorem expand_applies_flags_in_order:
  "expand os tbl (mask S) targ = expand_spec os tbl S targ"
proof (cases S)
  case (fields u t e)
  show ?thesis
    by (cases u; cases t; cases e)
       (simp_all add: fields mask_def expand_spec_def flag_values expand_def [of _ _ 0]
          expand_user expand_env expand_user_env expand_tag expand_tag_env
          expand_user_tag expand_user_tag_env
          split: option.splits sum.splits)
qed

theorem expand_applies_flags_in_order_witness:
  "expand os0 t_ab (mask \<lparr>has_user = False, has_tag = True, has_env = False\<rparr>) ''b/x''
     = Some (Inr ''/tmp/sub/x'')
   \<and> expand_spec os0 t_ab \<lparr>has_user = False, has_tag = True, has_env = False\<rparr> ''b/x''
     = Some (Inr ''/tmp/sub/x'')"
proof -
  have "expand os0 t_ab (mask \<lparr>has_user = False, has_tag = True, has_env = False\<rparr>) ''b/x''
     = Some (Inr ''/tmp/sub/x'')"
    by code_simp
  with expand_applies_flags_in_order
    [of os0 t_ab "\<lparr>has_user = False, has_tag = True, has_env = False\<rparr>" "''b/x''"]
  show ?thesis by simp
qed

subsection \<open>Creating a tag\<close>

text \<open>
  When the expansion of the classified target returns a path: if the path is not an
  existing directory, \<open>store_jmp\<close> prints the message, returns \<open>False\<close> and
  leaves the jump table as it was; if it is, \<open>store_jmp\<close> returns \<open>True\<close> and the
  jump table maps the tag to a new entry with the flags, the target and a usage counter
  of 0, every other tag being as before.
\<close>

lemma store_jmp_validates_directory:
  assumes "flgs = fst (get_flags os tbl targ)"
    and "stored = (if flgs = 0 \<and> absolute then abspath os targ else targ)"
    and "expand os tbl flgs stored = Some (Inr path)"
  shows "(if isdir os path
          then \<exists>tbl'. store_jmp os tbl tag targ absolute =
                  Some (Inr True, tbl', [(Stdout, ''Added jmp '' @ tag @ '' -> '' @ stored)])
                \<and> map_of tbl' =
                    (map_of tbl)(tag \<mapsto>
                       \<lparr>version = CURRENT_VERSION, flags = flgs, target = stored, used = 0\<rparr>)
          else store_jmp os tbl tag targ absolute =
                 Some (Inr False, tbl, [(Stdout, stored @ '' is not a jumpable directory.'')]))"
proof -
  have g: "get_flags os tbl targ = (flgs, targ)"
    using assms(1) by (simp add: get_flags_value)
  show ?thesis
    using assms(2,3)
    by (subst store_jmp_def, subst g, subst store_jmp_def, subst g)
       (simp add: Let_def log_def SUPPRESS_def JmpStore_init_def update_conv')
qed

text \<open>When the expansion raises, \<open>store_jmp\<close> raises and prints nothing.\<close>

lemma store_jmp_raises:
  assumes "flgs = fst (get_flags os tbl targ)"
    and "stored = (if flgs = 0 \<and> absolute then abspath os targ else targ)"
    and "expand os tbl flgs stored = Some (Inl e)"
  shows "store_jmp os tbl tag targ absolute = Some (Inl e, tbl, [])"
proof -
  have g: "get_flags os tbl targ = (flgs, targ)"
    using assms(1) by (simp add: get_flags_value)
  show ?thesis
    using assms(2,3)
    by (subst store_jmp_def, subst g) (simp add: Let_def)
qed

text \<open>
  C7, the failing input. On the table \<open>t_dangling\<close>, where tag \<open>b\<close> is stored with
  the target \<open>a/sub\<close> and tag \<open>a\<close> has been deleted, \<open>store_jmp\<close> of a tag \<open>c\<close>
  with the raw target \<open>b/x\<close> raises \<open>KeyError\<close>: the target does not expand to an
  existing directory, and there is no message and no \<open>False\<close>.
\<close>

theorem store_jmp_deleted_reference_raises:
  "store_jmp os0 t_dangling ''c'' ''b/x'' True = Some (Inl KeyError, t_dangling, [])"
  by code_simp

subsection \<open>Usage counters\<close>






subsection \<open>Listing\<close>

text \<open>
  C6, counterexample. On the table \<open>t_ba\<close>, where \<open>b\<close> was stored before \<open>a\<close>
  and both usage counters are 0, the listing has \<open>b\<close> before \<open>a\<close>: the tie is not
  broken by tag.
\<close>

theorem listing_tie_not_by_tag:
  "map (\<lambda>j. used (snd j)) t_ba = [0, 0] \<and> map fst (listing t_ba) = [''b'', ''a'']"
  by (simp add: listing_def t_ba_def JmpStore_init_def)

text \<open>
  C6, amended. The listing holds the entries of the table, ordered by descending usage
  counter; entries with the same usage counter keep the order that they have in the
  table, the insertion order. \<open>print_list\<close> prints the header and then one line for
  each entry of the listing, or the line \<open>empty\<close> when the table is empty.
\<close>

theorem listing_descending_stable:
  "sorted_wrt (\<lambda>x y. used (snd x) \<ge> used (snd y)) (listing tbl)
   \<and> mset (listing tbl) = mset tbl
   \<and> filter (\<lambda>j. used (snd j) = k) (listing tbl) = filter (\<lambda>j. used (snd j) = k) tbl
   \<and> print_list tbl =
       (Stdout, ''jmp_table:'')
       # (if tbl = [] then [(Stdout, ''  empty'')]
          else map (\<lambda>j. (Stdout, ''  '' @ fst j @ '' ('' @ str_int (used (snd j))
                                   @ '') -> '' @ target (snd j)))
                 (listing tbl))"
proof -
  have "sorted (map (\<lambda>j. - used (snd j)) (listing tbl))"
    by (simp add: listing_def)
  then have a: "sorted_wrt (\<lambda>x y. used (snd x) \<ge> used (snd y)) (listing tbl)"
    by (simp add: sorted_wrt_map)
  have b: "mset (listing tbl) = mset tbl"
    by (simp add: listing_def)
  have "filter (\<lambda>j. - used (snd j) = - k) (listing tbl)
          = filter (\<lambda>j. - used (snd j) = - k) tbl"
    unfolding listing_def by (rule sort_key_stable)
  then have c: "filter (\<lambda>j. used (snd j) = k) (listing tbl) = filter (\<lambda>j. used (snd j) = k) tbl"
    by simp
  have e: "listing [] = []"
    by (simp add: listing_def)
  have lines: "concat (map (\<lambda>(jmp, store).
                  log (''  '' @ jmp @ '' ('' @ str_int (used store) @ '') -> '' @ target store)
                      False Stdout) xs)
        = map (\<lambda>j. (Stdout, ''  '' @ fst j @ '' ('' @ str_int (used (snd j))
                                   @ '') -> '' @ target (snd j))) xs" for xs
    by (induction xs) (auto simp add: log_def SUPPRESS_def)
  have d: "print_list tbl =
       (Stdout, ''jmp_table:'')
       # (if tbl = [] then [(Stdout, ''  empty'')]
          else map (\<lambda>j. (Stdout, ''  '' @ fst j @ '' ('' @ str_int (used (snd j))
                                   @ '') -> '' @ target (snd j)))
                 (listing tbl))"
    by (simp only: print_list_def lines) (simp add: log_def SUPPRESS_def e)
  from a b c d show ?thesis by blast
qed

subsection \<open>Persistence\<close>

text \<open>
  C8, counterexample. With a store file whose content is no pickle, so that
  \<open>pickle.load\<close> raises \<open>UnpicklingError\<close>, \<open>load_table\<close> raises that exception:
  it returns no empty store and prints no diagnostic.
\<close>

theorem load_table_corrupt_file_raises:
  "load_table pickle0 [''/home/u/.jmp_pad/jmp_table.pkl'' \<mapsto> Garbage]
     ''/home/u/.jmp_pad'' ''jmp_table.pkl'' [] = (Inl UnpicklingError, [], [])"
  by (simp add: load_table_def path_join_def startswith_def pickle0_def)

text \<open>
  C8, amended. In a new session, where the jump table is empty, \<open>load_table\<close>
  returns normally with an empty jump table when the store file is missing and when
  unpickling it raises \<open>EOFError\<close>; it prints nothing in either case. An exception
  of \<open>pickle.load\<close> other than \<open>EOFError\<close> is raised by \<open>load_table\<close>.
\<close>

theorem load_table_missing_or_eof:
  "(if files (path_join path store) = None then
      load_table pk files path store [] = (Inr (), [], [])
    else if load pk (the (files (path_join path store))) = Raises EOFError then
      load_table pk files path store tbl = (Inr (), [], [])
    else if load pk (the (files (path_join path store))) = Raises e then
      load_table pk files path store tbl = (Inl e, tbl, [])
    else True)"
  by (auto simp add: load_table_def debug_def log_def SUPPRESS_def LOG_DEBUG_def
           split: option.splits unpickled.splits)

theorem load_table_missing_or_eof_witness:
  "load_table pickle0 Map.empty ''/home/u/.jmp_pad'' ''jmp_table.pkl'' [] = (Inr (), [], [])
   \<and> load_table pickle0 [''/home/u/.jmp_pad/jmp_table.pkl'' \<mapsto> Empty]
        ''/home/u/.jmp_pad'' ''jmp_table.pkl'' t_a = (Inr (), [], [])"
  using load_table_missing_or_eof
      [of Map.empty "''/home/u/.jmp_pad''" "''jmp_table.pkl''" pickle0]
    load_table_missing_or_eof
      [of "[''/home/u/.jmp_pad/jmp_table.pkl'' \<mapsto> Empty]" "''/home/u/.jmp_pad''"
          "''jmp_table.pkl''" pickle0 t_a]
  by (simp add: path_join_def startswith_def pickle0_def)

text \<open>
  C9. When \<open>pickle.load\<close> returns the table that \<open>pickle.dump\<close> was given,
  \<open>save_table\<close> followed by \<open>load_table\<close> with the same storage directory and
  file name returns normally with the saved jump table, whatever the jump table of the
  loading session was: the same tags in the same order, each one with the same target,
  flags, usage counter and version.
\<close>

theorem save_then_load_roundtrip:
  assumes "\<And>t. load pk (dump pk t) = Loaded t"
  shows "load_table pk (fst (save_table pk files path store tbl)) path store tbl0
           = (Inr (), tbl, [])"
  using assms
  by (simp add: load_table_def save_table_def debug_def log_def SUPPRESS_def LOG_DEBUG_def)

theorem save_then_load_roundtrip_witness:
  "(\<forall>t. load pickle0 (dump pickle0 t) = Loaded t)
   \<and> load_table pickle0
        (fst (save_table pickle0 Map.empty ''/home/u/.jmp_pad'' ''jmp_table.pkl'' t_ab))
        ''/home/u/.jmp_pad'' ''jmp_table.pkl'' [] = (Inr (), t_ab, [])"
proof -
  have h: "load pickle0 (dump pickle0 t) = Loaded t" for t
    by (simp add: pickle0_def)
  from h save_then_load_roundtrip [of pickle0 Map.empty "''/home/u/.jmp_pad''"
      "''jmp_table.pkl''" t_ab "[]", OF h]
  show ?thesis by simp
qed

end
